theory Spec2Isabelle
  imports Main
begin

section \<open>The readiness controller of \<open>lib/ready.js\<close>\<close>

text \<open>
  \<open>Ready\<close> is an object of twelve methods: \<open>currentPath\<close>, \<open>ensure\<close>, the
  six \<open>warn...\<close> presenters and the four remediations \<open>install\<close>, \<open>launch\<close>,
  \<open>authenticate\<close>, \<open>whitelist\<close>. Every method is synchronous up to the point where it
  hands a pair of callbacks to a promise of \<open>StateController\<close>, to a button or to
  \<open>setTimeout\<close>. The embedding threads an explicit world through the methods: the
  telemetry log, the notifications on screen, the calls made to \<open>StateController\<close>
  with the callbacks waiting for them, and the timer queue. The callbacks are data
  (one constructor per arrow function of the source, carrying what the closure
  captures), run when the environment settles a promise, clicks a button or lets
  time pass.
\<close>

subsection \<open>Values of the collaborators\<close>

text \<open>\<open>StateController.STATES\<close>, in the order of the \<open>switch\<close> in \<open>ensure\<close>.\<close>

datatype state =
  UNSUPPORTED | UNINSTALLED | INSTALLED | RUNNING | REACHABLE | AUTHENTICATED | WHITELISTED

text \<open>
  What a promise can be rejected with: a JSON value (integers stand for the numbers
  that JavaScript prints in plain decimal).
\<close>

datatype json =
  JNull
| JBool bool
| JNumber int
| JString string
| JArray "json list"
| JObject "(string \<times> json) list"

text \<open>The second argument of \<open>metrics.track\<close>: absent, \<open>err\<close>, or \<open>{dir: dir}\<close>.\<close>

datatype props = NoProps | ErrProps json | DirProps string

type_synonym event = "string \<times> props"

text \<open>The calls the controller makes to \<open>StateController\<close>.\<close>

datatype request =
  HandleState "string option"
| InstallKiteRelease
| RunKite
| AuthenticateUser string string
| WhitelistPath string

text \<open>What a promise settles with; \<open>Undefined\<close> is the value of a \<open>promise<void>\<close>.\<close>

datatype val = Undefined | StateVal state

datatype outcome = Resolved val | Rejected json

text \<open>
  The pair of callbacks passed to \<open>.then\<close>, named after the method that creates
  it, with the variable the closures capture (\<open>curpath\<close>, \<open>dirpath\<close>).
\<close>

datatype continuation =
  EnsureK "string option"
| InstallK
| LaunchK
| AuthenticateK
| WhitelistK string

text \<open>The only callback ever given to \<open>setTimeout\<close>: the one in \<open>launch\<close>.\<close>

datatype timer_callback = LaunchSettled

text \<open>
  An \<open>onDidClick\<close> closure. All eight in the source have one shape: track an event,
  possibly dismiss the notification the button sits on, call one remediation of
  \<open>Ready\<close>.
\<close>

datatype action = Install | Launch | Authenticate | Whitelist string

record handler =
  tracks :: event
  dismisses :: bool
  invokes :: action

record button =
  btn_text :: string
  onDidClick :: handler

datatype severity = Error | Warning

text \<open>The options object of \<open>addError\<close> and \<open>addWarning\<close>.\<close>

record options =
  description :: string
  icon :: "string option"
  dismissable :: bool
  buttons :: "button list"

text \<open>
  A notification on screen: its options, its kind and title, the events its
  \<open>onDidDismiss\<close> callbacks track, and whether it has been dismissed.
\<close>

record notification = options +
  kind :: severity
  message :: string
  didDismiss :: "event list"
  dismissed :: bool

text \<open>The part of the editor that \<open>currentPath\<close> reads.\<close>

datatype text_file = File (path: string)
datatype text_buffer = Buffer (buffer_file: "text_file option")
datatype pane_item = PaneItem (buffer: "text_buffer option")

record world =
  activePaneItem :: "pane_item option"
  tracked :: "event list"
  notifications :: "notification list"
  requested :: "request list"
  pending :: "(request \<times> continuation) list"
  timers :: "(nat \<times> timer_callback) list"
  clock :: nat
  unhandled :: "json list"

subsection \<open>Library functions the controller calls\<close>

text \<open>
  \<open>path.dirname\<close> of Node on POSIX: scan from the end for the last separator that
  follows a non-separator; index 0 is not scanned.
\<close>

fun dirname_scan :: "string \<Rightarrow> nat \<Rightarrow> bool \<Rightarrow> nat option" where
  "dirname_scan p 0 matchedSlash = None"
| "dirname_scan p (Suc i) matchedSlash =
     (if p ! Suc i = CHR ''/''
      then (if \<not> matchedSlash then Some (Suc i) else dirname_scan p i matchedSlash)
      else dirname_scan p i False)"

definition dirname :: "string \<Rightarrow> string" where
  "dirname p =
     (if p = [] then ''.''
      else
        let hasRoot = (hd p = CHR ''/'') in
        case dirname_scan p (length p - 1) True of
          None \<Rightarrow> if hasRoot then ''/'' else ''.''
        | Some e \<Rightarrow> if hasRoot \<and> e = 1 then ''//'' else take e p)"

text \<open>\<open>JSON.stringify\<close> with no replacer and no indentation.\<close>

definition hex_digit :: "nat \<Rightarrow> char" where
  "hex_digit n = ''0123456789abcdef'' ! (n mod 16)"

definition json_escape :: "char \<Rightarrow> string" where
  "json_escape c =
     (if c = CHR 0x22 then [CHR 0x5C, CHR 0x22]
      else if c = CHR 0x5C then [CHR 0x5C, CHR 0x5C]
      else if c = CHR 0x08 then [CHR 0x5C, CHR ''b'']
      else if c = CHR 0x0C then [CHR 0x5C, CHR ''f'']
      else if c = CHR 0x0A then [CHR 0x5C, CHR ''n'']
      else if c = CHR 0x0D then [CHR 0x5C, CHR ''r'']
      else if c = CHR 0x09 then [CHR 0x5C, CHR ''t'']
      else if of_char c < (32::nat)
        then [CHR 0x5C, CHR ''u'', CHR ''0'', CHR ''0'',
              hex_digit (of_char c div 16), hex_digit (of_char c)]
      else [c])"

definition json_quote :: "string \<Rightarrow> string" where
  "json_quote s = [CHR 0x22] @ concat (map json_escape s) @ [CHR 0x22]"

fun show_nat :: "nat \<Rightarrow> string" where
  "show_nat n =
     (if n < 10 then [''0123456789'' ! n]
      else show_nat (n div 10) @ [''0123456789'' ! (n mod 10)])"

definition show_int :: "int \<Rightarrow> string" where
  "show_int i = (if i < 0 then ''-'' @ show_nat (nat (- i)) else show_nat (nat i))"

fun join :: "string \<Rightarrow> string list \<Rightarrow> string" where
  "join sep [] = []"
| "join sep [x] = x"
| "join sep (x # y # ys) = x @ sep @ join sep (y # ys)"

fun JSON_stringify :: "json \<Rightarrow> string" where
  "JSON_stringify JNull = ''null''"
| "JSON_stringify (JBool b) = (if b then ''true'' else ''false'')"
| "JSON_stringify (JNumber i) = show_int i"
| "JSON_stringify (JString s) = json_quote s"
| "JSON_stringify (JArray xs) = ''['' @ join '','' (map JSON_stringify xs) @ '']''"
| "JSON_stringify (JObject kvs) =
     ''{'' @ join '','' (map (\<lambda>kv. json_quote (fst kv) @ '':'' @ JSON_stringify (snd kv)) kvs)
       @ ''}''"

text \<open>\<open>metrics.track(name, props)\<close> appends to the telemetry log.\<close>

definition track :: "string \<Rightarrow> props \<Rightarrow> world \<Rightarrow> world" where
  "track name ps w = w\<lparr>tracked := tracked w @ [(name, ps)]\<rparr>"

text \<open>
  \<open>atom.notifications.addError\<close> and \<open>addWarning\<close> put a notification on screen and
  return it; the handle is its index.
\<close>

definition addNotification :: "severity \<Rightarrow> string \<Rightarrow> options \<Rightarrow> world \<Rightarrow> nat \<times> world" where
  "addNotification sev title opts w =
     (length (notifications w),
      w\<lparr>notifications := notifications w @
        [\<lparr>description = description opts, icon = icon opts,
          dismissable = dismissable opts, buttons = buttons opts,
          kind = sev, message = title, didDismiss = [], dismissed = False\<rparr>]\<rparr>)"

definition addError :: "string \<Rightarrow> options \<Rightarrow> world \<Rightarrow> nat \<times> world" where
  "addError = addNotification Error"

definition addWarning :: "string \<Rightarrow> options \<Rightarrow> world \<Rightarrow> nat \<times> world" where
  "addWarning = addNotification Warning"

text \<open>\<open>notification.onDidDismiss(() => metrics.track(...))\<close> registers the callback.\<close>

definition onDidDismiss :: "nat \<Rightarrow> event \<Rightarrow> world \<Rightarrow> world" where
  "onDidDismiss n ev w =
     (if n < length (notifications w)
      then w\<lparr>notifications := (notifications w)
             [n := (notifications w ! n)\<lparr>didDismiss := didDismiss (notifications w ! n) @ [ev]\<rparr>]\<rparr>
      else w)"

text \<open>
  \<open>notification.dismiss()\<close>: nothing on a notification that is not dismissable or is
  already dismissed; otherwise it is marked and its \<open>onDidDismiss\<close> callbacks run.
\<close>

definition dismiss :: "nat \<Rightarrow> world \<Rightarrow> world" where
  "dismiss n w =
     (if n < length (notifications w)
      then
        let nt = notifications w ! n in
        if \<not> dismissable nt \<or> dismissed nt then w
        else fold (\<lambda>ev. track (fst ev) (snd ev)) (didDismiss nt)
               (w\<lparr>notifications := (notifications w)[n := nt\<lparr>dismissed := True\<rparr>]\<rparr>)
      else w)"

text \<open>
  A call of a \<open>StateController\<close> method followed by \<open>.then(f, g)\<close>: the call is
  logged and the callbacks wait for the promise.
\<close>

definition call :: "request \<Rightarrow> continuation \<Rightarrow> world \<Rightarrow> world" where
  "call r k w = w\<lparr>requested := requested w @ [r], pending := pending w @ [(r, k)]\<rparr>"

text \<open>\<open>setTimeout(cb, ms)\<close>.\<close>

definition setTimeout :: "timer_callback \<Rightarrow> nat \<Rightarrow> world \<Rightarrow> world" where
  "setTimeout cb ms w = w\<lparr>timers := timers w @ [(clock w + ms, cb)]\<rparr>"

declare show_nat.simps [simp del]

subsection \<open>The methods of \<open>Ready\<close>\<close>

definition currentPath :: "world \<Rightarrow> string option" where
  "currentPath w =
     (case activePaneItem w of
        None \<Rightarrow> None
      | Some editor \<Rightarrow>
          (case buffer editor of
             None \<Rightarrow> None
           | Some b \<Rightarrow> (case buffer_file b of None \<Rightarrow> None | Some f \<Rightarrow> Some (path f))))"

text \<open>
  \<open>ensure\<close> reads the path and asks for the state; its two callbacks are
  \<open>ensure_then\<close> and \<open>ensure_catch\<close> below.
\<close>

definition ensure :: "world \<Rightarrow> world" where
  "ensure w = (let curpath = currentPath w in call (HandleState curpath) (EnsureK curpath) w)"

definition warnNotSupported :: "world \<Rightarrow> world" where
  "warnNotSupported w =
     (let w1 = track ''not-supported warning shown'' NoProps w;
          (n, w2) = addError ''The Kite autocomplete daemon is not supported on this platform''
            \<lparr>description = ''Kite is currently only supported on macOS.'',
             icon = Some ''circle-slash'',
             dismissable = True,
             buttons = []\<rparr> w1
      in onDidDismiss n (''not-supported warning dismissed'', NoProps) w2)"

definition warnNotInstalled :: "world \<Rightarrow> world" where
  "warnNotInstalled w =
     (let w1 = track ''not-installed warning shown'' NoProps w;
          (n, w2) = addWarning ''The Kite autocomplete daemon is not installed''
            \<lparr>description =
               ''In order to provide completions the Kite daemon needs to be installed.'',
             icon = Some ''circle-slash'',
             dismissable = True,
             buttons = [\<lparr>btn_text = ''Install Kite'',
               onDidClick = \<lparr>tracks = (''install button clicked (via not-installed warning)'', NoProps),
                             dismisses = True,
                             invokes = Install\<rparr>\<rparr>]\<rparr> w1
      in onDidDismiss n (''not-installed warning dismissed'', NoProps) w2)"

definition install :: "world \<Rightarrow> world" where
  "install w =
     call InstallKiteRelease InstallK (track ''download-and-install started'' NoProps w)"

definition install_catch :: "json \<Rightarrow> world \<Rightarrow> world" where
  "install_catch err w =
     (let w1 = track ''download-and-install failed'' (ErrProps err) w;
          (n, w2) = addError ''Unable to install Kite''
            \<lparr>description = JSON_stringify err,
             icon = None,
             dismissable = True,
             buttons = [\<lparr>btn_text = ''Retry'',
               onDidClick = \<lparr>tracks = (''retry button clicked (via download-and-install error)'', NoProps),
                             dismisses = True,
                             invokes = Install\<rparr>\<rparr>]\<rparr> w1
      in onDidDismiss n (''download-and-install error dismissed'', NoProps) w2)"

definition warnNotRunning :: "world \<Rightarrow> world" where
  "warnNotRunning w =
     (let w1 = track ''not-running warning shown'' NoProps w;
          (n, w2) = addWarning ''The Kite autocomplete daemon is not running''
            \<lparr>description =
               ''In order to provide completions the Kite daemon needs to be running.'',
             icon = Some ''circle-slash'',
             dismissable = True,
             buttons = [\<lparr>btn_text = ''Start Kite'',
               onDidClick = \<lparr>tracks = (''start button clicked (via not-running warning)'', NoProps),
                             dismisses = False,
                             invokes = Launch\<rparr>\<rparr>]\<rparr> w1
      in onDidDismiss n (''not-running warning dismissed'', NoProps) w2)"

definition launch :: "world \<Rightarrow> world" where
  "launch w = call RunKite LaunchK (track ''launch started'' NoProps w)"

text \<open>The success callback of \<open>launch\<close> only sets the timer.\<close>

definition launch_then :: "world \<Rightarrow> world" where
  "launch_then w = setTimeout LaunchSettled 5000 w"

text \<open>The callback given to \<open>setTimeout\<close>.\<close>

definition launch_timeout :: "world \<Rightarrow> world" where
  "launch_timeout w = ensure (track ''launch succeeded'' NoProps w)"

definition launch_catch :: "json \<Rightarrow> world \<Rightarrow> world" where
  "launch_catch err w =
     (let w1 = track ''launch failed'' (ErrProps err) w;
          (n, w2) = addError ''Unable to start Kite autocomplete daemon''
            \<lparr>description = JSON_stringify err,
             icon = None,
             dismissable = True,
             buttons = [\<lparr>btn_text = ''Retry'',
               onDidClick = \<lparr>tracks = (''retry button clicked (via launch error)'', NoProps),
                             dismisses = False,
                             invokes = Launch\<rparr>\<rparr>]\<rparr> w1
      in onDidDismiss n (''launch error dismissed'', NoProps) w2)"

definition install_then :: "world \<Rightarrow> world" where
  "install_then w = launch (track ''download-and-install succeeded'' NoProps w)"

definition warnNotReachable :: "world \<Rightarrow> world" where
  "warnNotReachable w =
     (let w1 = track ''not-reachable warning shown'' NoProps w;
          (n, w2) = addError ''The Kite autocomplete daemon is running but not reachable''
            \<lparr>description = ''Try killing Kite from Activity Monitor.'',
             icon = None,
             dismissable = True,
             buttons = []\<rparr> w1
      in onDidDismiss n (''not-reachable warning dismissed'', NoProps) w2)"

definition warnNotAuthenticated :: "world \<Rightarrow> world" where
  "warnNotAuthenticated w =
     (let w1 = track ''not-authenticated warning shown'' NoProps w;
          (n, w2) = addWarning ''You need to log in to the Kite autocomplete daemon''
            \<lparr>description =
               ''In order to provide completions the Kite daemon needs to be authenticated (so that it can access the index of your code stored on the cloud).'',
             icon = Some ''circle-slash'',
             dismissable = True,
             buttons = [\<lparr>btn_text = ''Login'',
               onDidClick = \<lparr>tracks = (''login button clicked (via not-authenticated warning)'', NoProps),
                             dismisses = False,
                             invokes = Authenticate\<rparr>\<rparr>]\<rparr> w1
      in onDidDismiss n (''not-authenticated warning dismissed'', NoProps) w2)"

definition authenticate :: "world \<Rightarrow> world" where
  "authenticate w =
     (let w1 = track ''authentication started'' NoProps w;
          email = ''test@kite.com'';
          password = ''123123''
      in call (AuthenticateUser email password) AuthenticateK w1)"

definition authenticate_then :: "world \<Rightarrow> world" where
  "authenticate_then w = ensure (track ''authentication succeeded'' NoProps w)"

definition authenticate_catch :: "json \<Rightarrow> world \<Rightarrow> world" where
  "authenticate_catch err w =
     (let w1 = track ''authentication failed'' (ErrProps err) w;
          (n, w2) = addError ''Unable to login''
            \<lparr>description = JSON_stringify err,
             icon = None,
             dismissable = True,
             buttons = [\<lparr>btn_text = ''Retry'',
               onDidClick = \<lparr>tracks = (''retry button clicked (via authentication error)'', NoProps),
                             dismisses = False,
                             invokes = Authenticate\<rparr>\<rparr>]\<rparr> w1
      in onDidDismiss n (''authentication error dismissed'', NoProps) w2)"

definition warnNotWhitelisted :: "string \<Rightarrow> world \<Rightarrow> world" where
  "warnNotWhitelisted filepath w =
     (let dir = dirname filepath;
          w1 = track ''not-whitelisted warning shown'' (DirProps dir) w;
          (n, w2) = addWarning (''Kite completions are not enabled for '' @ filepath)
            \<lparr>description =
               ''Kite only processes files in enabled directories. If you enable Kite then files in this directory will be synced to the Kite backend, where they will be analyzed and indexed.'',
             icon = Some ''circle-slash'',
             dismissable = True,
             buttons = [\<lparr>btn_text = ''Enable Kite for '' @ dir,
               onDidClick = \<lparr>tracks = (''enable button clicked (via not-whitelisted warning)'', DirProps dir),
                             dismisses = False,
                             invokes = Whitelist dir\<rparr>\<rparr>]\<rparr> w1
      in onDidDismiss n (''not-whitelisted warning dismissed'', DirProps dir) w2)"

definition whitelist :: "string \<Rightarrow> world \<Rightarrow> world" where
  "whitelist dirpath w =
     call (WhitelistPath dirpath) (WhitelistK dirpath)
       (track ''whitelisting started'' (DirProps dirpath) w)"

definition whitelist_then :: "string \<Rightarrow> world \<Rightarrow> world" where
  "whitelist_then dirpath w = ensure (track ''whitelisting succeeded'' (DirProps dirpath) w)"

definition whitelist_catch :: "string \<Rightarrow> json \<Rightarrow> world \<Rightarrow> world" where
  "whitelist_catch dirpath err w =
     (let w1 = track ''whitelisting failed'' (DirProps dirpath) w;
          (n, w2) = addError (''Unable to enable Kite for '' @ dirpath)
            \<lparr>description = JSON_stringify err,
             icon = None,
             dismissable = True,
             buttons = [\<lparr>btn_text = ''Retry'',
               onDidClick = \<lparr>tracks = (''retry clicked (via whitelisting-failed error)'', DirProps dirpath),
                             dismisses = False,
                             invokes = Whitelist dirpath\<rparr>\<rparr>]\<rparr> w1
      in onDidDismiss n (''whitelisting error dismissed'', NoProps) w2)"

text \<open>
  The \<open>switch\<close> of \<open>ensure\<close>. A value that is no state matches no \<open>case\<close>, and the
  \<open>switch\<close> has no \<open>default\<close>.
\<close>

definition ensure_then :: "string option \<Rightarrow> val \<Rightarrow> world \<Rightarrow> world" where
  "ensure_then curpath v w =
     (case v of
        Undefined \<Rightarrow> w
      | StateVal UNSUPPORTED \<Rightarrow> warnNotSupported w
      | StateVal UNINSTALLED \<Rightarrow> warnNotInstalled w
      | StateVal INSTALLED \<Rightarrow> warnNotRunning w
      | StateVal RUNNING \<Rightarrow> warnNotReachable w
      | StateVal REACHABLE \<Rightarrow> warnNotAuthenticated w
      | StateVal AUTHENTICATED \<Rightarrow>
          (case curpath of None \<Rightarrow> w | Some filepath \<Rightarrow> warnNotWhitelisted filepath w)
      | StateVal WHITELISTED \<Rightarrow> track ''kite is ready'' NoProps w)"

definition ensure_catch :: "json \<Rightarrow> world \<Rightarrow> world" where
  "ensure_catch err w = track ''handleState failed'' (ErrProps err) w"

subsection \<open>The environment: promises, clicks, dismissals, time\<close>

text \<open>
  \<open>promise.then(f, g)\<close> when the promise settles. Without a rejection callback a
  rejection reaches nobody and is recorded as unhandled.
\<close>

definition promise_then ::
  "(val \<Rightarrow> world \<Rightarrow> world) \<Rightarrow> (json \<Rightarrow> world \<Rightarrow> world) option \<Rightarrow> outcome \<Rightarrow> world \<Rightarrow> world" where
  "promise_then f g out w =
     (case out of
        Resolved v \<Rightarrow> f v w
      | Rejected err \<Rightarrow>
          (case g of Some h \<Rightarrow> h err w | None \<Rightarrow> w\<lparr>unhandled := unhandled w @ [err]\<rparr>))"

text \<open>The callbacks each method passes to \<open>.then\<close>.\<close>

fun resume :: "continuation \<Rightarrow> outcome \<Rightarrow> world \<Rightarrow> world" where
  "resume (EnsureK curpath) = promise_then (ensure_then curpath) (Some ensure_catch)"
| "resume InstallK = promise_then (\<lambda>_. install_then) (Some install_catch)"
| "resume LaunchK = promise_then (\<lambda>_. launch_then) (Some launch_catch)"
| "resume AuthenticateK = promise_then (\<lambda>_. authenticate_then) (Some authenticate_catch)"
| "resume (WhitelistK dirpath) =
     promise_then (\<lambda>_. whitelist_then dirpath) (Some (whitelist_catch dirpath))"

text \<open>The \<open>i\<close>-th waiting promise settles.\<close>

definition settle :: "nat \<Rightarrow> outcome \<Rightarrow> world \<Rightarrow> world" where
  "settle i out w =
     (if i < length (pending w)
      then resume (snd (pending w ! i)) out
             (w\<lparr>pending := take i (pending w) @ drop (Suc i) (pending w)\<rparr>)
      else w)"

fun invoke :: "action \<Rightarrow> world \<Rightarrow> world" where
  "invoke Install = install"
| "invoke Launch = launch"
| "invoke Authenticate = authenticate"
| "invoke (Whitelist dirpath) = whitelist dirpath"

text \<open>Running the \<open>onDidClick\<close> closure of a button of notification \<open>n\<close>.\<close>

definition run_handler :: "nat \<Rightarrow> handler \<Rightarrow> world \<Rightarrow> world" where
  "run_handler n h w =
     (let w1 = track (fst (tracks h)) (snd (tracks h)) w;
          w2 = (if dismisses h then dismiss n w1 else w1)
      in invoke (invokes h) w2)"

text \<open>The user clicks button \<open>b\<close> of notification \<open>n\<close>, if it is still on screen.\<close>

definition click :: "nat \<Rightarrow> nat \<Rightarrow> world \<Rightarrow> world" where
  "click n b w =
     (if n < length (notifications w) \<and> \<not> dismissed (notifications w ! n)
         \<and> b < length (buttons (notifications w ! n))
      then run_handler n (onDidClick (buttons (notifications w ! n) ! b)) w
      else w)"

fun fire :: "timer_callback \<Rightarrow> world \<Rightarrow> world" where
  "fire LaunchSettled = launch_timeout"

text \<open>
  \<open>d\<close> milliseconds pass: the timers whose deadline has come fire, in the order in
  which they were set (all delays are equal, so this is the order of the deadlines).
\<close>

definition advance :: "nat \<Rightarrow> world \<Rightarrow> world" where
  "advance d w =
     (let now = clock w + d;
          due = filter (\<lambda>t. fst t \<le> now) (timers w);
          rest = filter (\<lambda>t. \<not> fst t \<le> now) (timers w)
      in fold (\<lambda>t. fire (snd t)) due (w\<lparr>clock := now, timers := rest\<rparr>))"

datatype input =
  Ensure
| Settle nat outcome
| Click nat nat
| Dismiss nat
| Advance nat
| Focus "pane_item option"

fun step :: "input \<Rightarrow> world \<Rightarrow> world" where
  "step Ensure = ensure"
| "step (Settle i out) = settle i out"
| "step (Click n b) = click n b"
| "step (Dismiss n) = dismiss n"
| "step (Advance d) = advance d"
| "step (Focus item) = (\<lambda>w. w\<lparr>activePaneItem := item\<rparr>)"

definition run :: "input list \<Rightarrow> world \<Rightarrow> world" where
  "run ins w = fold step ins w"

definition world0 :: world where
  "world0 = \<lparr>activePaneItem = None, tracked = [], notifications = [], requested = [],
             pending = [], timers = [], clock = 0, unhandled = []\<rparr>"

subsection \<open>Scenarios\<close>

text \<open>\<open>ensure()\<close> is called and the promise of its state query settles with \<open>out\<close>.\<close>

definition ensure_settled :: "outcome \<Rightarrow> world \<Rightarrow> world" where
  "ensure_settled out w = settle (length (pending w)) out (ensure w)"

text \<open>A remediation is called and the promise of its operation settles with \<open>out\<close>.\<close>

definition remediation_settled :: "action \<Rightarrow> outcome \<Rightarrow> world \<Rightarrow> world" where
  "remediation_settled m out w = settle (length (pending w)) out (invoke m w)"

text \<open>
  A retry session: the operation waiting last fails with the first error, the user
  clicks the button of the notification this puts on screen, the operation started
  by the click fails with the next error, and so on.
\<close>

fun fail_and_retry :: "json list \<Rightarrow> world \<Rightarrow> world" where
  "fail_and_retry [] w = w"
| "fail_and_retry (err # errs) w =
     fail_and_retry errs
       (click (length (notifications w)) 0
          (settle (length (pending w) - 1) (Rejected err) w))"

text \<open>An editor with no file in focus is \<open>world0\<close>; \<open>world1\<close> has one.\<close>

definition world1 :: world where
  "world1 = world0\<lparr>activePaneItem :=
     Some (PaneItem (Some (Buffer (Some (File ''/Users/kite/project/main.py'')))))\<rparr>"


subsection \<open>What each method does to the world\<close>

lemma present_eq:
  "onDidDismiss (fst (addNotification sev title opts w)) ev (snd (addNotification sev title opts w)) =
     w\<lparr>notifications := notifications w @
        [\<lparr>description = description opts, icon = icon opts,
          dismissable = dismissable opts, buttons = buttons opts,
          kind = sev, message = title, didDismiss = [ev], dismissed = False\<rparr>]\<rparr>"
  by (simp add: addNotification_def onDidDismiss_def)

lemmas present_simps = present_eq addError_def addWarning_def Let_def split_beta track_def

lemma currentPath_cong [simp]:
  "currentPath (w\<lparr>requested := r\<rparr>) = currentPath w"
  "currentPath (w\<lparr>tracked := t\<rparr>) = currentPath w"
  "currentPath (w\<lparr>pending := p\<rparr>) = currentPath w"
  "currentPath (w\<lparr>notifications := ns\<rparr>) = currentPath w"
  "currentPath (w\<lparr>timers := ts\<rparr>) = currentPath w"
  "currentPath (w\<lparr>clock := c\<rparr>) = currentPath w"
  by (simp_all add: currentPath_def)

lemma ensure_eq:
  "ensure w = w\<lparr>requested := requested w @ [HandleState (currentPath w)],
               pending := pending w @ [(HandleState (currentPath w), EnsureK (currentPath w))]\<rparr>"
  by (simp add: ensure_def call_def Let_def)

lemma install_eq:
  "install w = w\<lparr>tracked := tracked w @ [(''download-and-install started'', NoProps)],
                requested := requested w @ [InstallKiteRelease],
                pending := pending w @ [(InstallKiteRelease, InstallK)]\<rparr>"
  by (simp add: install_def call_def track_def)

lemma launch_eq:
  "launch w = w\<lparr>tracked := tracked w @ [(''launch started'', NoProps)],
               requested := requested w @ [RunKite],
               pending := pending w @ [(RunKite, LaunchK)]\<rparr>"
  by (simp add: launch_def call_def track_def)

lemma authenticate_eq:
  "authenticate w = w\<lparr>tracked := tracked w @ [(''authentication started'', NoProps)],
               requested := requested w @ [AuthenticateUser ''test@kite.com'' ''123123''],
               pending := pending w @ [(AuthenticateUser ''test@kite.com'' ''123123'', AuthenticateK)]\<rparr>"
  by (simp add: authenticate_def call_def track_def Let_def)

lemma whitelist_eq:
  "whitelist d w = w\<lparr>tracked := tracked w @ [(''whitelisting started'', DirProps d)],
               requested := requested w @ [WhitelistPath d],
               pending := pending w @ [(WhitelistPath d, WhitelistK d)]\<rparr>"
  by (simp add: whitelist_def call_def track_def)

lemma ensure_settled_Resolved:
  "ensure_settled (Resolved v) w =
     ensure_then (currentPath w) v (w\<lparr>requested := requested w @ [HandleState (currentPath w)]\<rparr>)"
  by (simp add: ensure_settled_def ensure_eq settle_def promise_then_def)

lemma ensure_settled_Rejected:
  "ensure_settled (Rejected err) w =
     ensure_catch err (w\<lparr>requested := requested w @ [HandleState (currentPath w)]\<rparr>)"
  by (simp add: ensure_settled_def ensure_eq settle_def promise_then_def)

lemma dispatch_UNSUPPORTED:
  "\<exists>nt. notifications (ensure_settled (Resolved (StateVal UNSUPPORTED)) w) = notifications w @ [nt]
      \<and> kind nt = Error \<and> buttons nt = []"
  by (simp add: ensure_settled_Resolved ensure_then_def warnNotSupported_def present_simps)

lemma dispatch_UNINSTALLED:
  "\<exists>nt. notifications (ensure_settled (Resolved (StateVal UNINSTALLED)) w) = notifications w @ [nt]
      \<and> kind nt = Warning \<and> map btn_text (buttons nt) = [''Install Kite'']
      \<and> click (length (notifications w)) 0 (ensure_settled (Resolved (StateVal UNINSTALLED)) w) =
          install (dismiss (length (notifications w))
            (track ''install button clicked (via not-installed warning)'' NoProps
               (ensure_settled (Resolved (StateVal UNINSTALLED)) w)))"
  by (simp add: ensure_settled_Resolved ensure_then_def warnNotInstalled_def present_simps
         click_def run_handler_def)

lemma dispatch_INSTALLED:
  "\<exists>nt. notifications (ensure_settled (Resolved (StateVal INSTALLED)) w) = notifications w @ [nt]
      \<and> kind nt = Warning \<and> map btn_text (buttons nt) = [''Start Kite'']
      \<and> click (length (notifications w)) 0 (ensure_settled (Resolved (StateVal INSTALLED)) w) =
          launch (track ''start button clicked (via not-running warning)'' NoProps
               (ensure_settled (Resolved (StateVal INSTALLED)) w))"
  by (simp add: ensure_settled_Resolved ensure_then_def warnNotRunning_def present_simps
         click_def run_handler_def)

lemma dispatch_RUNNING:
  "\<exists>nt. notifications (ensure_settled (Resolved (StateVal RUNNING)) w) = notifications w @ [nt]
      \<and> kind nt = Error \<and> buttons nt = []"
  by (simp add: ensure_settled_Resolved ensure_then_def warnNotReachable_def present_simps)

lemma dispatch_REACHABLE:
  "\<exists>nt. notifications (ensure_settled (Resolved (StateVal REACHABLE)) w) = notifications w @ [nt]
      \<and> kind nt = Warning \<and> map btn_text (buttons nt) = [''Login'']
      \<and> click (length (notifications w)) 0 (ensure_settled (Resolved (StateVal REACHABLE)) w) =
          authenticate (track ''login button clicked (via not-authenticated warning)'' NoProps
               (ensure_settled (Resolved (StateVal REACHABLE)) w))"
  by (simp add: ensure_settled_Resolved ensure_then_def warnNotAuthenticated_def present_simps
         click_def run_handler_def)

lemma dispatch_AUTHENTICATED_None:
  "currentPath w = None \<longrightarrow>
     notifications (ensure_settled (Resolved (StateVal AUTHENTICATED)) w) = notifications w
     \<and> tracked (ensure_settled (Resolved (StateVal AUTHENTICATED)) w) = tracked w"
  by (simp add: ensure_settled_Resolved ensure_then_def)

lemma dispatch_AUTHENTICATED_Some:
  "\<forall>p. currentPath w = Some p \<longrightarrow>
   (\<exists>nt. notifications (ensure_settled (Resolved (StateVal AUTHENTICATED)) w) = notifications w @ [nt]
      \<and> kind nt = Warning \<and> map btn_text (buttons nt) = [''Enable Kite for '' @ dirname p]
      \<and> click (length (notifications w)) 0 (ensure_settled (Resolved (StateVal AUTHENTICATED)) w) =
          whitelist (dirname p)
            (track ''enable button clicked (via not-whitelisted warning)'' (DirProps (dirname p))
               (ensure_settled (Resolved (StateVal AUTHENTICATED)) w)))"
  by (simp add: ensure_settled_Resolved ensure_then_def warnNotWhitelisted_def present_simps
         click_def run_handler_def)

lemma dispatch_WHITELISTED:
  "notifications (ensure_settled (Resolved (StateVal WHITELISTED)) w) = notifications w
     \<and> tracked (ensure_settled (Resolved (StateVal WHITELISTED)) w) = tracked w @ [(''kite is ready'', NoProps)]"
  by (simp add: ensure_settled_Resolved ensure_then_def track_def)


subsection \<open>The dispatch of \<open>ensure\<close>\<close>

text \<open>
  Claim C1. When the state query of \<open>ensure()\<close> resolves, the state decides what is
  presented. \<open>UNSUPPORTED\<close> and \<open>RUNNING\<close>: one error notification without buttons.
  \<open>UNINSTALLED\<close>: one warning whose button dismisses it and calls \<open>install()\<close>.
  \<open>INSTALLED\<close>: one warning whose button calls \<open>launch()\<close>. \<open>REACHABLE\<close>: one warning
  whose button, labelled Login, calls \<open>authenticate()\<close>. \<open>AUTHENTICATED\<close>: nothing at
  all when no file is in focus, and otherwise one warning whose button calls
  \<open>whitelist\<close> on the directory of the file. \<open>WHITELISTED\<close>: no notification, and the
  event \<open>kite is ready\<close> is tracked.
\<close>

theorem ensure_dispatch:
  "(\<exists>nt. notifications (ensure_settled (Resolved (StateVal UNSUPPORTED)) w) = notifications w @ [nt]
      \<and> kind nt = Error \<and> buttons nt = [])
   \<and> (\<exists>nt. notifications (ensure_settled (Resolved (StateVal UNINSTALLED)) w) = notifications w @ [nt]
      \<and> kind nt = Warning \<and> map btn_text (buttons nt) = [''Install Kite'']
      \<and> click (length (notifications w)) 0 (ensure_settled (Resolved (StateVal UNINSTALLED)) w) =
          install (dismiss (length (notifications w))
            (track ''install button clicked (via not-installed warning)'' NoProps
               (ensure_settled (Resolved (StateVal UNINSTALLED)) w))))
   \<and> (\<exists>nt. notifications (ensure_settled (Resolved (StateVal INSTALLED)) w) = notifications w @ [nt]
      \<and> kind nt = Warning \<and> map btn_text (buttons nt) = [''Start Kite'']
      \<and> click (length (notifications w)) 0 (ensure_settled (Resolved (StateVal INSTALLED)) w) =
          launch (track ''start button clicked (via not-running warning)'' NoProps
               (ensure_settled (Resolved (StateVal INSTALLED)) w)))
   \<and> (\<exists>nt. notifications (ensure_settled (Resolved (StateVal RUNNING)) w) = notifications w @ [nt]
      \<and> kind nt = Error \<and> buttons nt = [])
   \<and> (\<exists>nt. notifications (ensure_settled (Resolved (StateVal REACHABLE)) w) = notifications w @ [nt]
      \<and> kind nt = Warning \<and> map btn_text (buttons nt) = [''Login'']
      \<and> click (length (notifications w)) 0 (ensure_settled (Resolved (StateVal REACHABLE)) w) =
          authenticate (track ''login button clicked (via not-authenticated warning)'' NoProps
               (ensure_settled (Resolved (StateVal REACHABLE)) w)))
   \<and> (currentPath w = None \<longrightarrow>
        notifications (ensure_settled (Resolved (StateVal AUTHENTICATED)) w) = notifications w
        \<and> tracked (ensure_settled (Resolved (StateVal AUTHENTICATED)) w) = tracked w)
   \<and> (\<forall>p. currentPath w = Some p \<longrightarrow>
        (\<exists>nt. notifications (ensure_settled (Resolved (StateVal AUTHENTICATED)) w) = notifications w @ [nt]
          \<and> kind nt = Warning \<and> map btn_text (buttons nt) = [''Enable Kite for '' @ dirname p]
          \<and> click (length (notifications w)) 0 (ensure_settled (Resolved (StateVal AUTHENTICATED)) w) =
              whitelist (dirname p)
                (track ''enable button clicked (via not-whitelisted warning)'' (DirProps (dirname p))
                   (ensure_settled (Resolved (StateVal AUTHENTICATED)) w))))
   \<and> (notifications (ensure_settled (Resolved (StateVal WHITELISTED)) w) = notifications w
        \<and> tracked (ensure_settled (Resolved (StateVal WHITELISTED)) w) =
            tracked w @ [(''kite is ready'', NoProps)])"
  by (rule conjI [OF dispatch_UNSUPPORTED conjI [OF dispatch_UNINSTALLED
    conjI [OF dispatch_INSTALLED conjI [OF dispatch_RUNNING conjI [OF dispatch_REACHABLE
    conjI [OF dispatch_AUTHENTICATED_None
    conjI [OF dispatch_AUTHENTICATED_Some dispatch_WHITELISTED]]]]]]])

lemma dirname_example: "dirname ''/Users/kite/project/main.py'' = ''/Users/kite/project''"
  by (simp add: dirname_def)

text \<open>The two cases of \<open>AUTHENTICATED\<close>, at \<open>world0\<close> and at \<open>world1\<close>.\<close>

theorem ensure_dispatch_witness:
  "currentPath world0 = None
   \<and> (notifications (ensure_settled (Resolved (StateVal AUTHENTICATED)) world0) = notifications world0
      \<and> tracked (ensure_settled (Resolved (StateVal AUTHENTICATED)) world0) = tracked world0)
   \<and> currentPath world1 = Some ''/Users/kite/project/main.py''
   \<and> (\<exists>nt. notifications (ensure_settled (Resolved (StateVal AUTHENTICATED)) world1) =
            notifications world1 @ [nt]
          \<and> kind nt = Warning
          \<and> map btn_text (buttons nt) =
              [''Enable Kite for '' @ dirname ''/Users/kite/project/main.py'']
          \<and> click (length (notifications world1)) 0
               (ensure_settled (Resolved (StateVal AUTHENTICATED)) world1) =
              whitelist (dirname ''/Users/kite/project/main.py'')
                (track ''enable button clicked (via not-whitelisted warning)''
                   (DirProps (dirname ''/Users/kite/project/main.py''))
                   (ensure_settled (Resolved (StateVal AUTHENTICATED)) world1)))"
proof -
  have p0: "currentPath world0 = None"
    by (simp add: world0_def currentPath_def)
  have p1: "currentPath world1 = Some ''/Users/kite/project/main.py''"
    by (simp add: world1_def world0_def currentPath_def)
  note none = ensure_dispatch [of world0, THEN conjunct2, THEN conjunct2, THEN conjunct2,
      THEN conjunct2, THEN conjunct2, THEN conjunct1, rule_format, OF p0]
  note some = ensure_dispatch [of world1, THEN conjunct2, THEN conjunct2, THEN conjunct2,
      THEN conjunct2, THEN conjunct2, THEN conjunct2, THEN conjunct1, rule_format, OF p1]
  show ?thesis
    by (rule conjI [OF p0 conjI [OF none conjI [OF p1 some]]])
qed


subsection \<open>A remediation and the settlement of its promise\<close>

lemma settle_new:
  "settle (length (pending w)) out (w\<lparr>pending := pending w @ [(r, k)]\<rparr>) = resume k out w"
  by (simp add: settle_def)

lemma install_settled_Resolved:
  "remediation_settled Install (Resolved v) w =
     install_then (w\<lparr>tracked := tracked w @ [(''download-and-install started'', NoProps)],
                    requested := requested w @ [InstallKiteRelease]\<rparr>)"
  by (simp add: remediation_settled_def install_eq settle_def promise_then_def)

lemma install_settled_Rejected:
  "remediation_settled Install (Rejected err) w =
     install_catch err (w\<lparr>tracked := tracked w @ [(''download-and-install started'', NoProps)],
                    requested := requested w @ [InstallKiteRelease]\<rparr>)"
  by (simp add: remediation_settled_def install_eq settle_def promise_then_def)

subsection \<open>Side effects of one \<open>ensure\<close>\<close>

text \<open>
  Claim C3, as amended. When the state query of \<open>ensure()\<close> resolves with a state, the
  call presents exactly one notification unless the state is \<open>WHITELISTED\<close>, or is
  \<open>AUTHENTICATED\<close> with no file in focus, where it presents none; and it tracks exactly
  one event unless the state is \<open>AUTHENTICATED\<close> with no file in focus, where it tracks
  none. What was on screen and in the log before stays as it was.
\<close>

theorem ensure_side_effects:
  "\<exists>ns ts.
     notifications (ensure_settled (Resolved (StateVal s)) w) = notifications w @ ns
     \<and> tracked (ensure_settled (Resolved (StateVal s)) w) = tracked w @ ts
     \<and> length ns = (if s = WHITELISTED \<or> s = AUTHENTICATED \<and> currentPath w = None then 0 else 1)
     \<and> length ts = (if s = AUTHENTICATED \<and> currentPath w = None then 0 else 1)"
proof (cases s)
  case AUTHENTICATED
  then show ?thesis
    by (cases "currentPath w")
      (simp_all add: ensure_settled_Resolved ensure_then_def warnNotWhitelisted_def present_simps)
qed (simp_all add: ensure_settled_Resolved ensure_then_def warnNotSupported_def
       warnNotInstalled_def warnNotRunning_def warnNotReachable_def warnNotAuthenticated_def
       present_simps)

theorem ensure_side_effects_witness:
  "\<exists>ns ts.
     notifications (ensure_settled (Resolved (StateVal INSTALLED)) world0) = ns
     \<and> tracked (ensure_settled (Resolved (StateVal INSTALLED)) world0) = ts
     \<and> length ns = 1 \<and> length ts = 1"
  using ensure_side_effects [of INSTALLED world0] by (simp add: world0_def)

text \<open>
  Claim C3 as stated asks for one notification in every state but \<open>WHITELISTED\<close> and
  for one event in every state. With no file in focus and the state \<open>AUTHENTICATED\<close>, the
  guard \<open>curpath !== null\<close> skips the only statement of the branch: nothing is presented
  and nothing is tracked.
\<close>

theorem ensure_authenticated_no_file_counterexample:
  "currentPath world0 = None
   \<and> length (notifications (ensure_settled (Resolved (StateVal AUTHENTICATED)) world0)) \<noteq> 1
   \<and> length (tracked (ensure_settled (Resolved (StateVal AUTHENTICATED)) world0)) \<noteq> 1
   \<and> notifications (ensure_settled (Resolved (StateVal AUTHENTICATED)) world0) = []
   \<and> tracked (ensure_settled (Resolved (StateVal AUTHENTICATED)) world0) = []"
  by (simp add: ensure_settled_Resolved ensure_then_def world0_def currentPath_def)

subsection \<open>Failure of \<open>install\<close>\<close>

text \<open>
  Claim C9. Whatever \<open>installKiteRelease\<close> rejects with, \<open>install()\<close> presents one error
  notification whose description is \<open>JSON.stringify\<close> of the rejection value and whose
  only button is labelled Retry.
\<close>

theorem install_failure_notification:
  "\<exists>nt. notifications (remediation_settled Install (Rejected err) w) = notifications w @ [nt]
      \<and> kind nt = Error
      \<and> description nt = JSON_stringify err
      \<and> map btn_text (buttons nt) = [''Retry'']"
  by (simp add: install_settled_Rejected install_catch_def present_simps)

text \<open>The scenario of the specification: the rejection value \<open>{code: "E1"}\<close>.\<close>

lemma install_failure_E1:
  "map description (notifications
     (remediation_settled Install (Rejected (JObject [(''code'', JString ''E1'')])) world0)) =
   [[CHR ''{'', CHR 0x22, CHR ''c'', CHR ''o'', CHR ''d'', CHR ''e'', CHR 0x22, CHR '':'',
     CHR 0x22, CHR ''E'', CHR ''1'', CHR 0x22, CHR ''}'']]"
  by (simp add: install_settled_Rejected install_catch_def present_simps world0_def
        json_quote_def json_escape_def)

subsection \<open>Success of \<open>install\<close>\<close>

text \<open>
  Claim C5. When \<open>installKiteRelease\<close> resolves, the success callback tracks its event and
  calls \<open>launch()\<close> in the same step: the next call to \<open>StateController\<close> after
  \<open>installKiteRelease\<close> is \<open>runKite\<close>, with no state query between them, no timer set
  and no time passed.
\<close>

theorem install_success_launches:
  "remediation_settled Install (Resolved v) w =
     launch (track ''download-and-install succeeded'' NoProps
       (w\<lparr>tracked := tracked w @ [(''download-and-install started'', NoProps)],
          requested := requested w @ [InstallKiteRelease]\<rparr>))
   \<and> requested (remediation_settled Install (Resolved v) w) =
       requested w @ [InstallKiteRelease, RunKite]
   \<and> timers (remediation_settled Install (Resolved v) w) = timers w
   \<and> clock (remediation_settled Install (Resolved v) w) = clock w"
  by (simp add: install_settled_Resolved install_then_def launch_eq track_def)

subsection \<open>The directory that is whitelisted\<close>

lemma dirname_scan_bounds:
  "dirname_scan p i m = Some e \<Longrightarrow> 0 < e \<and> e \<le> i"
  by (induction i arbitrary: m) (auto split: if_splits dest: le_SucI)

lemma dirname_fixed_points:
  assumes "dirname p = p"
  shows "p = ''/'' \<or> p = ''.''"
proof (cases "p = []")
  case True
  with assms show ?thesis by (simp add: dirname_def)
next
  case False
  show ?thesis
  proof (cases "dirname_scan p (length p - 1) True")
    case None
    with assms False show ?thesis
      by (auto simp: dirname_def split: if_splits)
  next
    case (Some e)
    then have e: "0 < e" "e \<le> length p - 1"
      using dirname_scan_bounds by blast+
    with False have len: "e < length p"
      by (cases p) auto
    show ?thesis
    proof (cases "hd p = CHR ''/'' \<and> e = 1")
      case True
      with assms Some False have p: "p = ''//''"
        by (simp add: dirname_def)
      with Some show ?thesis by simp
    next
      case False
      with assms Some \<open>p \<noteq> []\<close> have "take e p = p"
        by (auto simp: dirname_def split: if_splits)
      then have "length (take e p) = length p" by simp
      with len show ?thesis by simp
    qed
  qed
qed

text \<open>
  Claim C10. With the file \<open>p\<close> in focus and the state \<open>AUTHENTICATED\<close>, the button of the
  warning is labelled with \<open>dirname p\<close>, and clicking it calls \<open>whitelistPath\<close> with
  \<open>dirname p\<close>. That directory is never \<open>p\<close> itself, the two fixed points of
  \<open>path.dirname\<close> apart, which name no file.
\<close>

theorem whitelist_acts_on_dirname:
  "(currentPath w = Some p \<longrightarrow>
     (\<exists>nt. notifications (ensure_settled (Resolved (StateVal AUTHENTICATED)) w) = notifications w @ [nt]
        \<and> map btn_text (buttons nt) = [''Enable Kite for '' @ dirname p]
        \<and> requested (click (length (notifications w)) 0
             (ensure_settled (Resolved (StateVal AUTHENTICATED)) w)) =
           requested (ensure_settled (Resolved (StateVal AUTHENTICATED)) w) @ [WhitelistPath (dirname p)]))
   \<and> (p \<noteq> ''/'' \<and> p \<noteq> ''.'' \<longrightarrow> dirname p \<noteq> p)"
proof (rule conjI)
  show "p \<noteq> ''/'' \<and> p \<noteq> ''.'' \<longrightarrow> dirname p \<noteq> p"
    using dirname_fixed_points [of p] by blast
qed (simp add: ensure_settled_Resolved ensure_then_def warnNotWhitelisted_def present_simps
       click_def run_handler_def whitelist_eq)


theorem whitelist_acts_on_dirname_witness:
  "currentPath world1 = Some ''/Users/kite/project/main.py''
   \<and> (\<exists>nt. notifications (ensure_settled (Resolved (StateVal AUTHENTICATED)) world1) =
            notifications world1 @ [nt]
        \<and> map btn_text (buttons nt) =
            [''Enable Kite for '' @ dirname ''/Users/kite/project/main.py'']
        \<and> requested (click (length (notifications world1)) 0
             (ensure_settled (Resolved (StateVal AUTHENTICATED)) world1)) =
           requested (ensure_settled (Resolved (StateVal AUTHENTICATED)) world1)
             @ [WhitelistPath (dirname ''/Users/kite/project/main.py'')])
   \<and> dirname ''/Users/kite/project/main.py'' \<noteq> ''/Users/kite/project/main.py''"
proof -
  have p1: "currentPath world1 = Some ''/Users/kite/project/main.py''"
    by (simp add: world1_def world0_def currentPath_def)
  have ne: "''/Users/kite/project/main.py'' \<noteq> ''/'' \<and> ''/Users/kite/project/main.py'' \<noteq> ''.''"
    by simp
  note th = whitelist_acts_on_dirname [of world1 "''/Users/kite/project/main.py''"]
  show ?thesis
    by (rule conjI [OF p1 conjI [OF th [THEN conjunct1, rule_format, OF p1]
          th [THEN conjunct2, rule_format, OF ne]]])
qed


subsection \<open>Timers\<close>

lemma launch_timeout_eq:
  "launch_timeout w =
     w\<lparr>tracked := tracked w @ [(''launch succeeded'', NoProps)],
       requested := requested w @ [HandleState (currentPath w)],
       pending := pending w @ [(HandleState (currentPath w), EnsureK (currentPath w))]\<rparr>"
  by (simp add: launch_timeout_def ensure_eq track_def)

lemma fire_eq:
  "fire cb w =
     w\<lparr>tracked := tracked w @ [(''launch succeeded'', NoProps)],
       requested := requested w @ [HandleState (currentPath w)],
       pending := pending w @ [(HandleState (currentPath w), EnsureK (currentPath w))]\<rparr>"
  by (cases cb) (simp add: launch_timeout_eq)

lemma fold_fire_frame:
  "currentPath (fold (\<lambda>t. fire (snd t)) ts w) = currentPath w"
  "timers (fold (\<lambda>t. fire (snd t)) ts w) = timers w"
  "clock (fold (\<lambda>t. fire (snd t)) ts w) = clock w"
  "unhandled (fold (\<lambda>t. fire (snd t)) ts w) = unhandled w"
  "notifications (fold (\<lambda>t. fire (snd t)) ts w) = notifications w"
  by (induction ts arbitrary: w; simp add: fire_eq)+

lemma requested_fold_fire:
  "requested (fold (\<lambda>t. fire (snd t)) ts w) =
     requested w @ replicate (length ts) (HandleState (currentPath w))"
  by (induction ts arbitrary: w) (simp_all add: fire_eq)

lemma requested_advance:
  "requested (advance t w) =
     requested w @ replicate (length (filter (\<lambda>x. fst x \<le> clock w + t) (timers w)))
                     (HandleState (currentPath w))"
  by (simp add: advance_def Let_def requested_fold_fire)

lemma launch_settled_Resolved:
  "remediation_settled Launch (Resolved v) w =
     w\<lparr>tracked := tracked w @ [(''launch started'', NoProps)],
       requested := requested w @ [RunKite],
       timers := timers w @ [(clock w + 5000, LaunchSettled)]\<rparr>"
  by (simp add: remediation_settled_def launch_eq settle_def promise_then_def launch_then_def
        setTimeout_def)

lemma authenticate_settled_Resolved:
  "remediation_settled Authenticate (Resolved v) w =
     w\<lparr>tracked := tracked w @ [(''authentication started'', NoProps),
                                 (''authentication succeeded'', NoProps)],
       requested := requested w @
         [AuthenticateUser ''test@kite.com'' ''123123'', HandleState (currentPath w)],
       pending := pending w @ [(HandleState (currentPath w), EnsureK (currentPath w))]\<rparr>"
  by (simp add: remediation_settled_def authenticate_eq settle_def promise_then_def
        authenticate_then_def ensure_eq track_def)

lemma whitelist_settled_Resolved:
  "remediation_settled (Whitelist d) (Resolved v) w =
     w\<lparr>tracked := tracked w @ [(''whitelisting started'', DirProps d),
                                 (''whitelisting succeeded'', DirProps d)],
       requested := requested w @ [WhitelistPath d, HandleState (currentPath w)],
       pending := pending w @ [(HandleState (currentPath w), EnsureK (currentPath w))]\<rparr>"
  by (simp add: remediation_settled_def whitelist_eq settle_def promise_then_def
        whitelist_then_def ensure_eq track_def)

lemma launch_settled_before_delay:
  "t < 5000 \<Longrightarrow>
   requested (advance t (remediation_settled Launch (Resolved v) w)) =
     requested (advance t (launch w))"
  by (simp add: requested_advance launch_settled_Resolved launch_eq)

lemma launch_settled_after_delay:
  "5000 \<le> t \<Longrightarrow>
   requested (advance t (remediation_settled Launch (Resolved v) w)) =
     requested (advance t (launch w)) @ [HandleState (currentPath w)]"
  by (simp add: requested_advance launch_settled_Resolved launch_eq replicate_append_same)

subsection \<open>When the state is queried again\<close>

text \<open>
  Claim C6. When \<open>runKite\<close> resolves, \<open>launch()\<close> makes no call at once: it sets a timer
  of 5000 milliseconds. Compared with a launch whose promise is still waiting, the
  resolved launch has caused no further call to \<open>StateController\<close> while less than
  5000 milliseconds have passed, and exactly one further call, the state query of
  \<open>ensure()\<close>, once they have. When \<open>authenticateUser\<close> or \<open>whitelistPath\<close> resolves,
  the state query is made in the success callback itself, with no timer and no time
  passed.
\<close>

theorem launch_waits_others_do_not:
  "requested (remediation_settled Launch (Resolved v) w) = requested w @ [RunKite]
   \<and> timers (remediation_settled Launch (Resolved v) w) =
       timers w @ [(clock w + 5000, LaunchSettled)]
   \<and> (t < 5000 \<longrightarrow>
        requested (advance t (remediation_settled Launch (Resolved v) w)) =
          requested (advance t (launch w)))
   \<and> (5000 \<le> t \<longrightarrow>
        requested (advance t (remediation_settled Launch (Resolved v) w)) =
          requested (advance t (launch w)) @ [HandleState (currentPath w)])
   \<and> requested (remediation_settled Authenticate (Resolved v) w) =
       requested w @ [AuthenticateUser ''test@kite.com'' ''123123'', HandleState (currentPath w)]
   \<and> timers (remediation_settled Authenticate (Resolved v) w) = timers w
   \<and> clock (remediation_settled Authenticate (Resolved v) w) = clock w
   \<and> requested (remediation_settled (Whitelist d) (Resolved v) w) =
       requested w @ [WhitelistPath d, HandleState (currentPath w)]
   \<and> timers (remediation_settled (Whitelist d) (Resolved v) w) = timers w
   \<and> clock (remediation_settled (Whitelist d) (Resolved v) w) = clock w"
  by (simp add: launch_settled_before_delay launch_settled_after_delay
        authenticate_settled_Resolved whitelist_settled_Resolved)
     (simp add: launch_settled_Resolved)

text \<open>One millisecond before the delay and at the delay, from \<open>world0\<close>.\<close>

theorem launch_waits_others_do_not_witness:
  "(4999::nat) < 5000
   \<and> requested (advance 4999 (remediation_settled Launch (Resolved Undefined) world0)) = [RunKite]
   \<and> (5000::nat) \<le> 5000
   \<and> requested (advance 5000 (remediation_settled Launch (Resolved Undefined) world0)) =
       [RunKite, HandleState None]"
proof -
  have lt: "(4999::nat) < 5000" and le: "(5000::nat) \<le> 5000"
    by simp_all
  have r: "requested (advance t (launch world0)) = [RunKite]" for t
    by (simp add: requested_advance launch_eq world0_def)
  have p: "currentPath world0 = None"
    by (simp add: world0_def currentPath_def)
  note th = launch_waits_others_do_not [of Undefined world0]
  from th [of 4999, THEN conjunct2, THEN conjunct2, THEN conjunct1, rule_format, OF lt]
  have a: "requested (advance 4999 (remediation_settled Launch (Resolved Undefined) world0)) =
             [RunKite]"
    by (simp only: r)
  from th [of 5000, THEN conjunct2, THEN conjunct2, THEN conjunct2, THEN conjunct1,
      rule_format, OF le]
  have b: "requested (advance 5000 (remediation_settled Launch (Resolved Undefined) world0)) =
             [RunKite, HandleState None]"
    by (simp add: r p)
  show ?thesis
    by (rule conjI [OF lt conjI [OF a conjI [OF le b]]])
qed

text \<open>
  Claim C2, as amended. After a successful \<open>authenticate\<close> or \<open>whitelist\<close> the next call
  the controller makes to \<open>StateController\<close> is the state query, and so it is after a
  successful \<open>launch\<close> once the settling delay has passed. After a successful
  \<open>install\<close> the next call is \<open>runKite\<close>: the controller launches without a state
  query.
\<close>

theorem success_requeries_state:
  "requested (remediation_settled Authenticate (Resolved v) w) =
       requested w @ [AuthenticateUser ''test@kite.com'' ''123123'', HandleState (currentPath w)]
   \<and> requested (remediation_settled (Whitelist d) (Resolved v) w) =
       requested w @ [WhitelistPath d, HandleState (currentPath w)]
   \<and> (5000 \<le> t \<longrightarrow>
        requested (advance t (remediation_settled Launch (Resolved v) w)) =
          requested (advance t (launch w)) @ [HandleState (currentPath w)])
   \<and> requested (remediation_settled Install (Resolved v) w) =
       requested w @ [InstallKiteRelease, RunKite]"
  by (simp add: launch_settled_after_delay authenticate_settled_Resolved
        whitelist_settled_Resolved install_settled_Resolved install_then_def launch_eq track_def)

theorem success_requeries_state_witness:
  "(5000::nat) \<le> 5000
   \<and> requested (advance 5000 (remediation_settled Launch (Resolved Undefined) world0)) =
       [RunKite, HandleState None]"
proof -
  have le: "(5000::nat) \<le> 5000"
    by simp
  have r: "requested (advance 5000 (launch world0)) = [RunKite]"
    by (simp add: requested_advance launch_eq world0_def)
  have p: "currentPath world0 = None"
    by (simp add: world0_def currentPath_def)
  from success_requeries_state [of Undefined world0 "[]" 5000, THEN conjunct2, THEN conjunct2,
      THEN conjunct1, rule_format, OF le]
  have "requested (advance 5000 (remediation_settled Launch (Resolved Undefined) world0)) =
          [RunKite, HandleState None]"
    by (simp add: r p)
  with le show ?thesis by (rule conjI)
qed

text \<open>
  Claim C2 as stated covers \<open>install\<close>: there the success callback goes on to the
  next remediation, \<open>launch\<close>, and no state query is made, however long one waits.
\<close>

theorem install_success_skips_query_counterexample:
  "requested (remediation_settled Install (Resolved Undefined) world0) =
     [InstallKiteRelease, RunKite]
   \<and> requested (advance 5000 (remediation_settled Install (Resolved Undefined) world0)) =
     [InstallKiteRelease, RunKite]
   \<and> HandleState None \<notin> set (requested (advance 5000
        (remediation_settled Install (Resolved Undefined) world0)))"
  by (simp add: requested_advance install_settled_Resolved install_then_def launch_eq track_def
        world0_def)


subsection \<open>Rejections\<close>

lemma unhandled_fold_track:
  "unhandled (fold (\<lambda>ev. track (fst ev) (snd ev)) evs w) = unhandled w"
  by (induction evs arbitrary: w) (simp_all add: track_def)

lemma unhandled_dismiss: "unhandled (dismiss n w) = unhandled w"
  by (simp add: dismiss_def Let_def unhandled_fold_track)

lemma unhandled_invoke: "unhandled (invoke m w) = unhandled w"
  by (cases m) (simp_all add: install_eq launch_eq authenticate_eq whitelist_eq)

lemma unhandled_click: "unhandled (click n b w) = unhandled w"
  by (simp add: click_def run_handler_def Let_def unhandled_invoke unhandled_dismiss track_def)

lemma unhandled_ensure_then: "unhandled (ensure_then curpath v w) = unhandled w"
proof (cases v)
  case Undefined
  then show ?thesis by (simp add: ensure_then_def)
next
  case (StateVal s)
  then show ?thesis
    by (cases s; cases curpath)
      (simp_all add: ensure_then_def warnNotSupported_def warnNotInstalled_def
         warnNotRunning_def warnNotReachable_def warnNotAuthenticated_def
         warnNotWhitelisted_def present_simps)
qed

lemma unhandled_then:
  "unhandled (install_then w) = unhandled w"
  "unhandled (launch_then w) = unhandled w"
  "unhandled (authenticate_then w) = unhandled w"
  "unhandled (whitelist_then d w) = unhandled w"
  by (simp_all add: install_then_def launch_then_def authenticate_then_def whitelist_then_def
        launch_eq ensure_eq track_def setTimeout_def)

lemma unhandled_catch:
  "unhandled (ensure_catch err w) = unhandled w"
  "unhandled (install_catch err w) = unhandled w"
  "unhandled (launch_catch err w) = unhandled w"
  "unhandled (authenticate_catch err w) = unhandled w"
  "unhandled (whitelist_catch d err w) = unhandled w"
  by (simp_all add: ensure_catch_def install_catch_def launch_catch_def authenticate_catch_def
        whitelist_catch_def present_simps)

lemma unhandled_resume: "unhandled (resume k out w) = unhandled w"
  by (cases k; cases out)
    (simp_all add: promise_then_def unhandled_ensure_then unhandled_then unhandled_catch)

lemma unhandled_settle: "unhandled (settle i out w) = unhandled w"
  by (simp add: settle_def unhandled_resume)

lemma unhandled_advance: "unhandled (advance t w) = unhandled w"
  by (simp add: advance_def Let_def fold_fire_frame)

lemma unhandled_step: "unhandled (step i w) = unhandled w"
  by (cases i)
    (simp_all add: ensure_eq unhandled_settle unhandled_click unhandled_dismiss unhandled_advance)

lemma unhandled_run: "unhandled (run ins w) = unhandled w"
  unfolding run_def by (induction ins arbitrary: w) (simp_all add: unhandled_step)

lemma unhandled_ensure_settled: "unhandled (ensure_settled out w) = unhandled w"
  by (simp add: ensure_settled_def unhandled_settle ensure_eq)

lemma unhandled_remediation_settled: "unhandled (remediation_settled m out w) = unhandled w"
  by (simp add: remediation_settled_def unhandled_settle unhandled_invoke)

text \<open>
  Claim C7. When the state query of \<open>ensure()\<close> rejects with \<open>err\<close>, the event
  \<open>handleState failed\<close> is tracked with \<open>err\<close>, no notification is presented, and no
  call, callback or timer is left behind. Every \<open>.then\<close> of the controller has a
  rejection callback, so no rejection is ever left unhandled: not by \<open>ensure()\<close>, not
  by a remediation, and not in any run of the controller, whatever the promises
  settle with and whatever the user clicks.
\<close>

theorem query_failure_is_tracked_only:
  "tracked (ensure_settled (Rejected err) w) = tracked w @ [(''handleState failed'', ErrProps err)]
   \<and> notifications (ensure_settled (Rejected err) w) = notifications w
   \<and> requested (ensure_settled (Rejected err) w) = requested w @ [HandleState (currentPath w)]
   \<and> pending (ensure_settled (Rejected err) w) = pending w
   \<and> timers (ensure_settled (Rejected err) w) = timers w
   \<and> unhandled (ensure_settled out w) = unhandled w
   \<and> unhandled (remediation_settled m out w) = unhandled w
   \<and> unhandled (run ins w) = unhandled w"
  by (simp add: ensure_settled_Rejected ensure_catch_def track_def unhandled_run
        unhandled_ensure_settled unhandled_remediation_settled)

subsection \<open>Retrying\<close>

lemma settle_last:
  "pending w \<noteq> [] \<Longrightarrow>
   settle (length (pending w) - 1) out w =
     resume (snd (last (pending w))) out (w\<lparr>pending := butlast (pending w)\<rparr>)"
  by (simp add: settle_def last_conv_nth butlast_conv_take)

lemma retry_round_install:
  assumes "pending w \<noteq> []" and "snd (last (pending w)) = InstallK"
  shows "requested (click (length (notifications w)) 0
           (settle (length (pending w) - 1) (Rejected err) w)) = requested w @ [InstallKiteRelease]"
    and "pending (click (length (notifications w)) 0
           (settle (length (pending w) - 1) (Rejected err) w)) =
         butlast (pending w) @ [(InstallKiteRelease, InstallK)]"
  using assms
  by (simp_all add: settle_last promise_then_def install_catch_def present_simps click_def
        run_handler_def dismiss_def install_eq del: One_nat_def)

lemma retry_round_launch:
  assumes "pending w \<noteq> []" and "snd (last (pending w)) = LaunchK"
  shows "requested (click (length (notifications w)) 0
           (settle (length (pending w) - 1) (Rejected err) w)) = requested w @ [RunKite]"
    and "pending (click (length (notifications w)) 0
           (settle (length (pending w) - 1) (Rejected err) w)) =
         butlast (pending w) @ [(RunKite, LaunchK)]"
  using assms
  by (simp_all add: settle_last promise_then_def launch_catch_def present_simps click_def
        run_handler_def launch_eq del: One_nat_def)

lemma retry_round_authenticate:
  assumes "pending w \<noteq> []" and "snd (last (pending w)) = AuthenticateK"
  shows "requested (click (length (notifications w)) 0
           (settle (length (pending w) - 1) (Rejected err) w)) =
         requested w @ [AuthenticateUser ''test@kite.com'' ''123123'']"
    and "pending (click (length (notifications w)) 0
           (settle (length (pending w) - 1) (Rejected err) w)) =
         butlast (pending w) @ [(AuthenticateUser ''test@kite.com'' ''123123'', AuthenticateK)]"
  using assms
  by (simp_all add: settle_last promise_then_def authenticate_catch_def present_simps click_def
        run_handler_def authenticate_eq del: One_nat_def)

lemma retry_round_whitelist:
  assumes "pending w \<noteq> []" and "snd (last (pending w)) = WhitelistK d"
  shows "requested (click (length (notifications w)) 0
           (settle (length (pending w) - 1) (Rejected err) w)) = requested w @ [WhitelistPath d]"
    and "pending (click (length (notifications w)) 0
           (settle (length (pending w) - 1) (Rejected err) w)) =
         butlast (pending w) @ [(WhitelistPath d, WhitelistK d)]"
  using assms
  by (simp_all add: settle_last promise_then_def whitelist_catch_def present_simps click_def
        run_handler_def whitelist_eq del: One_nat_def)

lemma retries_install:
  "pending w \<noteq> [] \<Longrightarrow> snd (last (pending w)) = InstallK \<Longrightarrow>
   requested (fail_and_retry errs w) = requested w @ replicate (length errs) InstallKiteRelease"
proof (induction errs arbitrary: w)
  case Nil
  show ?case by simp
next
  case (Cons err errs)
  let ?w = "click (length (notifications w)) 0 (settle (length (pending w) - 1) (Rejected err) w)"
  note round = retry_round_install [OF Cons.prems, of err]
  have "pending ?w \<noteq> []" and "snd (last (pending ?w)) = InstallK"
    by (simp_all only: round) simp_all
  then have "requested (fail_and_retry errs ?w) = requested ?w @ replicate (length errs) InstallKiteRelease"
    by (rule Cons.IH)
  then show ?case
    by (simp add: round del: One_nat_def)
qed

lemma retries_launch:
  "pending w \<noteq> [] \<Longrightarrow> snd (last (pending w)) = LaunchK \<Longrightarrow>
   requested (fail_and_retry errs w) = requested w @ replicate (length errs) RunKite"
proof (induction errs arbitrary: w)
  case Nil
  show ?case by simp
next
  case (Cons err errs)
  let ?w = "click (length (notifications w)) 0 (settle (length (pending w) - 1) (Rejected err) w)"
  note round = retry_round_launch [OF Cons.prems, of err]
  have "pending ?w \<noteq> []" and "snd (last (pending ?w)) = LaunchK"
    by (simp_all only: round) simp_all
  then have "requested (fail_and_retry errs ?w) = requested ?w @ replicate (length errs) RunKite"
    by (rule Cons.IH)
  then show ?case
    by (simp add: round del: One_nat_def)
qed

lemma retries_authenticate:
  "pending w \<noteq> [] \<Longrightarrow> snd (last (pending w)) = AuthenticateK \<Longrightarrow>
   requested (fail_and_retry errs w) = requested w @ replicate (length errs) (AuthenticateUser ''test@kite.com'' ''123123'')"
proof (induction errs arbitrary: w)
  case Nil
  show ?case by simp
next
  case (Cons err errs)
  let ?w = "click (length (notifications w)) 0 (settle (length (pending w) - 1) (Rejected err) w)"
  note round = retry_round_authenticate [OF Cons.prems, of err]
  have "pending ?w \<noteq> []" and "snd (last (pending ?w)) = AuthenticateK"
    by (simp_all only: round) simp_all
  then have "requested (fail_and_retry errs ?w) = requested ?w @ replicate (length errs) (AuthenticateUser ''test@kite.com'' ''123123'')"
    by (rule Cons.IH)
  then show ?case
    by (simp add: round del: One_nat_def)
qed

lemma retries_whitelist:
  "pending w \<noteq> [] \<Longrightarrow> snd (last (pending w)) = WhitelistK d \<Longrightarrow>
   requested (fail_and_retry errs w) = requested w @ replicate (length errs) (WhitelistPath d)"
proof (induction errs arbitrary: w)
  case Nil
  show ?case by simp
next
  case (Cons err errs)
  let ?w = "click (length (notifications w)) 0 (settle (length (pending w) - 1) (Rejected err) w)"
  note round = retry_round_whitelist [OF Cons.prems, of err]
  have "pending ?w \<noteq> []" and "snd (last (pending ?w)) = WhitelistK d"
    by (simp_all only: round) simp_all
  then have "requested (fail_and_retry errs ?w) = requested ?w @ replicate (length errs) (WhitelistPath d)"
    by (rule Cons.IH)
  then show ?case
    by (simp add: round del: One_nat_def)
qed

text \<open>
  Claim C8. In a retry session of any length, started by \<open>whitelist(d)\<close>,
  \<open>authenticate()\<close>, \<open>install()\<close> or \<open>launch()\<close>, where every attempt fails and the user
  clicks Retry on the notification of the failure, every click calls the same
  operation of \<open>StateController\<close> with the same arguments as the first call: the same
  directory, the same email and password.
\<close>

theorem retry_repeats_the_operation:
  "requested (fail_and_retry errs (whitelist d w)) =
     requested w @ replicate (Suc (length errs)) (WhitelistPath d)
   \<and> requested (fail_and_retry errs (authenticate w)) =
     requested w @ replicate (Suc (length errs)) (AuthenticateUser ''test@kite.com'' ''123123'')
   \<and> requested (fail_and_retry errs (install w)) =
     requested w @ replicate (Suc (length errs)) InstallKiteRelease
   \<and> requested (fail_and_retry errs (launch w)) =
     requested w @ replicate (Suc (length errs)) RunKite"
  by (simp add: retries_whitelist [of _ d] retries_authenticate retries_install retries_launch
        whitelist_eq authenticate_eq install_eq launch_eq)

subsection \<open>Retry after a failed \<open>launch\<close>\<close>

text \<open>
  Claim C4. \<open>runKite\<close> rejects and the user clicks Retry. The click calls \<open>launch()\<close>
  again, and the notification of the failure is still on screen: the \<open>onDidClick\<close> of
  \<open>launch\<close> has no \<open>notification.dismiss()\<close>. The same scenario with \<open>install\<close>
  dismisses the notification before \<open>install()\<close> is called again.
\<close>

theorem launch_retry_keeps_notification:
  "map dismissed (notifications (click 0 0
      (remediation_settled Launch (Rejected (JObject [(''code'', JString ''E1'')])) world0))) = [False]
   \<and> requested (click 0 0
      (remediation_settled Launch (Rejected (JObject [(''code'', JString ''E1'')])) world0)) =
       [RunKite, RunKite]
   \<and> map dismissed (notifications (click 0 0
      (remediation_settled Install (Rejected (JObject [(''code'', JString ''E1'')])) world0))) = [True]
   \<and> requested (click 0 0
      (remediation_settled Install (Rejected (JObject [(''code'', JString ''E1'')])) world0)) =
       [InstallKiteRelease, InstallKiteRelease]"
  by (simp add: remediation_settled_def settle_def promise_then_def launch_catch_def
        install_catch_def present_simps click_def run_handler_def dismiss_def launch_eq install_eq
        world0_def)


end
